theory Spec2Isabelle
  imports Main "HOL-Library.Word"
begin

unbundle bit_operations_syntax

section \<open>Common types\<close>

text \<open>
  Vulkan and GLFW objects are opaque handles. A handle is modelled as a natural number;
  \<open>VK_NULL_HANDLE\<close> (and a null \<open>GLFWwindow*\<close>) is \<open>0\<close>.
\<close>

type_synonym handle = nat
type_synonym u8 = "8 word"
type_synonym u32 = "32 word"
type_synonym u64 = "64 word"

definition VK_NULL_HANDLE :: handle where
  "VK_NULL_HANDLE = 0"

definition UINT32_MAX :: u32 where
  "UINT32_MAX = 0xFFFFFFFF"

definition UINT64_MAX :: u64 where
  "UINT64_MAX = 0xFFFFFFFFFFFFFFFF"

text \<open>
  Every \<open>throw std::runtime_error(msg)\<close> of the source is the value \<open>Runtime_error msg\<close>.
  The remaining constructors are the places where the C++ has undefined behaviour and
  nothing is thrown: an index past the end of a \<open>std::vector\<close>, a store past the end of
  its buffer, an integer division by zero.
\<close>

datatype error =
    Runtime_error string
  | Out_of_bounds_read
  | Out_of_bounds_write
  | Division_by_zero

text \<open>The result codes of the Vulkan entry points that the code calls.\<close>

datatype VkResult =
    VK_SUCCESS
  | VK_NOT_READY
  | VK_TIMEOUT
  | VK_SUBOPTIMAL_KHR
  | VK_ERROR_OUT_OF_DATE_KHR
  | VK_ERROR_DEVICE_LOST
  | VK_ERROR_OUT_OF_HOST_MEMORY

section \<open>VulkanContext\<close>

text \<open>
  The members of the class; \<open>vc_device\<close> is the member \<open>device_\<close>, and so on (a name
  cannot end in an underscore here).
\<close>

record VulkanContext =
  vc_instance :: handle
  vc_physical_device :: handle
  vc_device :: handle
  vc_compute_queue :: handle
  vc_present_queue :: handle
  vc_compute_queue_family :: u32
  vc_present_queue_family :: u32
  vc_command_pool :: handle
  vc_debug_messenger :: handle

text \<open>The member initialisers of the class declaration: the state of a fresh object.\<close>

definition VulkanContext_new :: VulkanContext where
  "VulkanContext_new =
     \<lparr> vc_instance = VK_NULL_HANDLE, vc_physical_device = VK_NULL_HANDLE,
       vc_device = VK_NULL_HANDLE, vc_compute_queue = VK_NULL_HANDLE,
       vc_present_queue = VK_NULL_HANDLE, vc_compute_queue_family = UINT32_MAX,
       vc_present_queue_family = UINT32_MAX, vc_command_pool = VK_NULL_HANDLE,
       vc_debug_messenger = VK_NULL_HANDLE \<rparr>"

subsection \<open>cleanup\<close>

text \<open>The destroy calls that \<open>VulkanContext::cleanup\<close> can issue, with their arguments.\<close>

datatype destroy_call =
    DestroyCommandPool handle handle
  | DestroyDevice handle
  | DestroyDebugUtilsMessenger handle handle
  | DestroyInstance handle

text \<open>
  \<open>cleanup\<close> reads the handles, issues destroy calls and writes no member. The model
  returns the context after the call together with the calls issued, in order.
  \<open>destroyFunc\<close> says whether \<open>vkGetInstanceProcAddr\<close> found
  \<open>vkDestroyDebugUtilsMessengerEXT\<close>.
\<close>

definition cleanup :: "bool \<Rightarrow> VulkanContext \<Rightarrow> VulkanContext \<times> destroy_call list" where
  "cleanup destroyFunc ctx =
     (ctx,
      (if vc_device ctx \<noteq> VK_NULL_HANDLE
       then (if vc_command_pool ctx \<noteq> VK_NULL_HANDLE
             then [DestroyCommandPool (vc_device ctx) (vc_command_pool ctx)] else [])
            @ [DestroyDevice (vc_device ctx)]
       else [])
      @
      (if vc_instance ctx \<noteq> VK_NULL_HANDLE
       then (if vc_debug_messenger ctx \<noteq> VK_NULL_HANDLE
             then (if destroyFunc
                   then [DestroyDebugUtilsMessenger (vc_instance ctx) (vc_debug_messenger ctx)]
                   else [])
             else [])
            @ [DestroyInstance (vc_instance ctx)]
       else []))"

text \<open>Two calls in a row, as an explicit \<open>cleanup()\<close> followed by the destructor makes them.\<close>

definition cleanup_twice :: "bool \<Rightarrow> VulkanContext \<Rightarrow> VulkanContext \<times> destroy_call list" where
  "cleanup_twice destroyFunc ctx =
     (let (ctx1, calls1) = cleanup destroyFunc ctx;
          (ctx2, calls2) = cleanup destroyFunc ctx1
      in (ctx2, calls1 @ calls2))"

text \<open>The handle a destroy call destroys.\<close>

fun destroyed :: "destroy_call \<Rightarrow> handle" where
  "destroyed (DestroyCommandPool d p) = p"
| "destroyed (DestroyDevice d) = d"
| "destroyed (DestroyDebugUtilsMessenger i m) = m"
| "destroyed (DestroyInstance i) = i"

subsection \<open>Device selection\<close>

text \<open>
  What the driver reports for one physical device: the answers of
  \<open>vkGetPhysicalDeviceProperties\<close>, \<open>vkGetPhysicalDeviceQueueFamilyProperties\<close> and
  \<open>vkEnumerateDeviceExtensionProperties\<close>.
\<close>

record physical_device =
  pd_handle :: handle
  deviceType :: u32
  deviceName :: string
  queueFlags :: "u32 list"
  extensionNames :: "string list"

text \<open>Constants of the Vulkan headers.\<close>

definition VK_QUEUE_COMPUTE_BIT :: u32 where
  "VK_QUEUE_COMPUTE_BIT = 0x00000002"

definition VK_PHYSICAL_DEVICE_TYPE_DISCRETE_GPU :: u32 where
  "VK_PHYSICAL_DEVICE_TYPE_DISCRETE_GPU = 2"

definition VK_PHYSICAL_DEVICE_TYPE_INTEGRATED_GPU :: u32 where
  "VK_PHYSICAL_DEVICE_TYPE_INTEGRATED_GPU = 1"

definition VK_KHR_SWAPCHAIN_EXTENSION_NAME :: string where
  "VK_KHR_SWAPCHAIN_EXTENSION_NAME = ''VK_KHR_swapchain''"

text \<open>The two search loops of \<open>isDeviceSuitable\<close>; each stops at the first hit.\<close>

fun hasComputeQueue :: "u32 list \<Rightarrow> bool" where
  "hasComputeQueue [] = False"
| "hasComputeQueue (flags # rest) =
     (if flags AND VK_QUEUE_COMPUTE_BIT \<noteq> 0 then True else hasComputeQueue rest)"

fun hasSwapchainExt :: "string list \<Rightarrow> bool" where
  "hasSwapchainExt [] = False"
| "hasSwapchainExt (ext # rest) =
     (if ext = VK_KHR_SWAPCHAIN_EXTENSION_NAME then True else hasSwapchainExt rest)"

definition isDeviceSuitable :: "physical_device \<Rightarrow> bool" where
  "isDeviceSuitable device \<longleftrightarrow>
     hasComputeQueue (queueFlags device) \<and> hasSwapchainExt (extensionNames device)"

text \<open>
  The first loop of \<open>selectPhysicalDevice\<close> returns at the first suitable discrete GPU,
  the second at the first suitable device.
\<close>

fun prefer_discrete :: "physical_device list \<Rightarrow> physical_device option" where
  "prefer_discrete [] = None"
| "prefer_discrete (device # rest) =
     (if isDeviceSuitable device
      then (if deviceType device = VK_PHYSICAL_DEVICE_TYPE_DISCRETE_GPU
            then Some device else prefer_discrete rest)
      else prefer_discrete rest)"

fun fallback_suitable :: "physical_device list \<Rightarrow> physical_device option" where
  "fallback_suitable [] = None"
| "fallback_suitable (device # rest) =
     (if isDeviceSuitable device then Some device else fallback_suitable rest)"

definition selectPhysicalDevice ::
  "physical_device list \<Rightarrow> VulkanContext \<Rightarrow> error + VulkanContext" where
  "selectPhysicalDevice devices ctx =
     (if length devices = 0
      then Inl (Runtime_error ''Failed to find GPUs with Vulkan support'')
      else case prefer_discrete devices of
             Some device \<Rightarrow> Inr (ctx\<lparr>vc_physical_device := pd_handle device\<rparr>)
           | None \<Rightarrow>
               (case fallback_suitable devices of
                  Some device \<Rightarrow> Inr (ctx\<lparr>vc_physical_device := pd_handle device\<rparr>)
                | None \<Rightarrow> Inl (Runtime_error ''Failed to find suitable GPU'')))"

section \<open>FrameGrabber\<close>

record Frame =
  width :: u32
  height :: u32
  stride :: u32
  data :: "u8 list"

text \<open>The members \<open>width_\<close>, \<open>height_\<close> and \<open>frame_count_\<close>.\<close>

record FrameGrabber =
  fg_width :: u32
  fg_height :: u32
  fg_frame_count :: u32

definition FrameGrabber_new :: "u32 \<Rightarrow> u32 \<Rightarrow> FrameGrabber" where
  "FrameGrabber_new w h = \<lparr> fg_width = w, fg_height = h, fg_frame_count = 0 \<rparr>"

text \<open>
  The body of the inner loop: the four bytes stored for the pixel \<open>(x, y)\<close>. The
  products and quotients are computed in \<open>uint32_t\<close> and then narrowed to \<open>uint8_t\<close>.
\<close>

definition gradient_pixel :: "u32 \<Rightarrow> u32 \<Rightarrow> u32 \<Rightarrow> u32 \<Rightarrow> u8 list" where
  "gradient_pixel w h x y =
     (let r = (ucast ((x * 255) div w) :: u8);
          g = (ucast ((y * 255) div h) :: u8);
          b = (ucast (((x + y) * 255) div (w + h)) :: u8);
          a = (255 :: u8)
      in [r, g, b, a])"

text \<open>The inner loop over \<open>x\<close> and the outer loop over \<open>y\<close>, as the bytes stored in order.\<close>

definition gradient_row :: "u32 \<Rightarrow> u32 \<Rightarrow> u32 \<Rightarrow> u8 list" where
  "gradient_row w h y =
     concat (map (\<lambda>x. gradient_pixel w h (of_nat x) y) [0..<unat w])"

definition gradient_rows :: "u32 \<Rightarrow> u32 \<Rightarrow> u8 list" where
  "gradient_rows w h =
     concat (map (\<lambda>y. gradient_row w h (of_nat y)) [0..<unat h])"

text \<open>\<open>std::vector::resize\<close>: keeps a prefix, or appends zero bytes.\<close>

definition resize :: "nat \<Rightarrow> u8 list \<Rightarrow> u8 list" where
  "resize n xs = take n xs @ replicate (n - length xs) 0"

text \<open>
  \<open>grabFrame\<close>. The pixel count is the \<open>uint32_t\<close> product \<open>width_ * height_\<close>, widened
  to \<open>size_t\<close> only afterwards; the buffer gets four times that many bytes (\<open>size_t\<close>
  is 64 bits wide, so this second product does not wrap). The loops then store
  \<open>4 * width_ * height_\<close> bytes through \<open>ptr\<close>, whatever the size of the buffer: a store
  past its end is undefined behaviour. The blue channel divides by the \<open>uint32_t\<close> sum
  \<open>width_ + height_\<close>, which is evaluated for the first pixel before any store.
\<close>

definition grabFrame :: "FrameGrabber \<Rightarrow> Frame \<Rightarrow> error + (bool \<times> Frame \<times> FrameGrabber)" where
  "grabFrame fg out_frame =
     (let w = fg_width fg;
          h = fg_height fg;
          pixels = unat (w * h);
          buf = resize (pixels * 4) (data out_frame);
          stored = unat h * unat w * 4
      in if w \<noteq> 0 \<and> h \<noteq> 0 \<and> w + h = 0 then Inl Division_by_zero
         else if length buf < stored then Inl Out_of_bounds_write
         else Inr (True,
                   \<lparr> width = w, height = h, stride = w * 4,
                     data = gradient_rows w h @ drop stored buf \<rparr>,
                   fg\<lparr>fg_frame_count := fg_frame_count fg + 1\<rparr>))"

section \<open>ComputePipeline\<close>

text \<open>
  The members of the class, without their trailing underscore and with the prefix
  \<open>cp\<close> where the name is also a member of another class.
\<close>

record ComputePipeline =
  cp_vk_ctx :: VulkanContext
  cp_width :: u32
  cp_height :: u32
  compute_shader :: handle
  cp_pipeline_layout :: handle
  compute_pipeline :: handle
  descriptor_set_layout :: handle
  descriptor_pool :: handle
  descriptor_sets :: "handle \<times> handle"
  compute_command_buffer :: handle
  compute_fence :: handle

text \<open>
  The constructor stores the context; the handles take their initialisers. \<open>width_\<close>,
  \<open>height_\<close> and \<open>descriptor_sets_\<close> have none: their indeterminate values are parameters.
\<close>

definition ComputePipeline_new ::
  "VulkanContext \<Rightarrow> u32 \<Rightarrow> u32 \<Rightarrow> handle \<times> handle \<Rightarrow> ComputePipeline" where
  "ComputePipeline_new vk_ctx w h sets =
     \<lparr> cp_vk_ctx = vk_ctx, cp_width = w, cp_height = h,
       compute_shader = VK_NULL_HANDLE, cp_pipeline_layout = VK_NULL_HANDLE,
       compute_pipeline = VK_NULL_HANDLE, descriptor_set_layout = VK_NULL_HANDLE,
       descriptor_pool = VK_NULL_HANDLE, descriptor_sets = sets,
       compute_command_buffer = VK_NULL_HANDLE, compute_fence = VK_NULL_HANDLE \<rparr>"

text \<open>
  The device as \<open>processFrame\<close> could change it: the texels of every image, and the
  command buffers submitted to the compute queue so far.
\<close>

type_synonym texel = u32

record gpu =
  image_memory :: "handle \<Rightarrow> nat \<times> nat \<Rightarrow> texel"
  submitted :: "handle list"

text \<open>
  \<open>processFrame\<close>: the body holds two comments and no statement. It returns normally,
  having changed neither the pipeline object nor the device.
\<close>

definition processFrame ::
  "ComputePipeline \<Rightarrow> handle \<Rightarrow> handle \<Rightarrow> u32 \<Rightarrow> gpu \<Rightarrow> error + (ComputePipeline \<times> gpu)" where
  "processFrame cp input_image output_image block_size g = Inr (cp, g)"

definition getDescriptorSet :: "ComputePipeline \<Rightarrow> u32 \<Rightarrow> handle" where
  "getDescriptorSet cp frame_index =
     (if frame_index mod 2 = 0 then fst (descriptor_sets cp) else snd (descriptor_sets cp))"

text \<open>The texel that the tiling rule of block size \<open>b\<close> asks for at \<open>(x, y)\<close>.\<close>

definition tile_sample :: "(nat \<times> nat \<Rightarrow> texel) \<Rightarrow> nat \<Rightarrow> nat \<times> nat \<Rightarrow> texel" where
  "tile_sample img b xy = img ((fst xy div b) * b, (snd xy div b) * b)"

section \<open>DisplayPipeline\<close>

record VkExtent2D =
  extent_width :: u32
  extent_height :: u32

record VkSurfaceCapabilitiesKHR =
  minImageCount :: u32
  maxImageCount :: u32
  currentExtent :: VkExtent2D
  currentTransform :: u32

record VkSurfaceFormatKHR =
  format :: u32
  colorSpace :: u32

text \<open>Constants of the Vulkan headers.\<close>

definition VK_FORMAT_R8G8B8A8_UNORM :: u32 where
  "VK_FORMAT_R8G8B8A8_UNORM = 37"

definition VK_COLOR_SPACE_SRGB_NONLINEAR_KHR :: u32 where
  "VK_COLOR_SPACE_SRGB_NONLINEAR_KHR = 0"

definition VK_PRESENT_MODE_MAILBOX_KHR :: u32 where
  "VK_PRESENT_MODE_MAILBOX_KHR = 1"

definition VK_PRESENT_MODE_FIFO_KHR :: u32 where
  "VK_PRESENT_MODE_FIFO_KHR = 2"

text \<open>
  The members of the class, without their trailing underscore and with the prefix
  \<open>dp\<close> where the name is also a member of another class.
\<close>

record DisplayPipeline =
  dp_vk_ctx :: VulkanContext
  window :: handle
  surface :: handle
  swapchain :: handle
  swapchain_images :: "handle list"
  swapchain_image_views :: "handle list"
  swapchain_format :: u32
  swapchain_extent :: VkExtent2D
  render_pass :: handle
  framebuffers :: "handle list"
  dp_pipeline_layout :: handle
  graphics_pipeline :: handle
  dp_command_pool :: handle
  command_buffers :: "handle list"
  image_available_semaphore :: handle
  render_finished_semaphore :: handle
  in_flight_fence :: handle
  current_frame :: u32

subsection \<open>createSwapchain\<close>

text \<open>
  What the driver answers during \<open>createSwapchain\<close>: the surface capabilities, the
  surface formats, the present modes, the result of \<open>vkCreateSwapchainKHR\<close> with the
  handle it writes, and the images of the new chain.
\<close>

record surface_env =
  capabilities :: VkSurfaceCapabilitiesKHR
  formats :: "VkSurfaceFormatKHR list"
  presentModes :: "u32 list"
  create_result :: VkResult
  created_swapchain :: handle
  created_images :: "handle list"

text \<open>The fields of \<open>VkSwapchainCreateInfoKHR\<close> that depend on the negotiation.\<close>

record VkSwapchainCreateInfoKHR =
  ci_surface :: handle
  ci_minImageCount :: u32
  ci_imageFormat :: u32
  ci_imageColorSpace :: u32
  ci_imageExtent :: VkExtent2D
  ci_preTransform :: u32
  ci_presentMode :: u32
  ci_oldSwapchain :: handle

text \<open>
  The format loop: \<open>selected\<close> holds \<open>selectedFormat\<close>, and the loop leaves at the
  first entry with the preferred format and colour space.
\<close>

fun format_loop :: "VkSurfaceFormatKHR list \<Rightarrow> VkSurfaceFormatKHR \<Rightarrow> VkSurfaceFormatKHR" where
  "format_loop [] selected = selected"
| "format_loop (f # rest) selected =
     (if format f = VK_FORMAT_R8G8B8A8_UNORM \<and> colorSpace f = VK_COLOR_SPACE_SRGB_NONLINEAR_KHR
      then f else format_loop rest selected)"

text \<open>
  \<open>selectedFormat = formats[0]\<close> comes first, with no test of \<open>formatCount\<close>: on an
  empty vector it reads past the end.
\<close>

definition selectFormat :: "VkSurfaceFormatKHR list \<Rightarrow> error + VkSurfaceFormatKHR" where
  "selectFormat fs =
     (case fs of
        [] \<Rightarrow> Inl Out_of_bounds_read
      | f0 # _ \<Rightarrow> Inr (format_loop fs f0))"

fun mode_loop :: "u32 list \<Rightarrow> u32 \<Rightarrow> u32" where
  "mode_loop [] presentMode = presentMode"
| "mode_loop (m # rest) presentMode =
     (if m = VK_PRESENT_MODE_MAILBOX_KHR then m else mode_loop rest presentMode)"

definition selectExtent :: "VkSurfaceCapabilitiesKHR \<Rightarrow> u32 \<Rightarrow> u32 \<Rightarrow> VkExtent2D" where
  "selectExtent caps w h =
     (let e = currentExtent caps
      in if extent_width (currentExtent caps) = UINT32_MAX
         then e\<lparr>extent_width := w, extent_height := h\<rparr>
         else e)"

definition selectImageCount :: "VkSurfaceCapabilitiesKHR \<Rightarrow> u32" where
  "selectImageCount caps =
     (let imageCount = minImageCount caps + 1
      in if maxImageCount caps > 0 \<and> imageCount > maxImageCount caps
         then maxImageCount caps else imageCount)"

text \<open>
  \<open>createSwapchain\<close>, in the order of the source: format, present mode, extent, image
  count, the create call, the images. It returns the object after the call and the
  create info that was passed to \<open>vkCreateSwapchainKHR\<close>.
\<close>

definition createSwapchain ::
  "surface_env \<Rightarrow> u32 \<Rightarrow> u32 \<Rightarrow> DisplayPipeline \<Rightarrow>
     error + (DisplayPipeline \<times> VkSwapchainCreateInfoKHR)" where
  "createSwapchain env w h dp =
     (case selectFormat (formats env) of
        Inl e \<Rightarrow> Inl e
      | Inr selectedFormat \<Rightarrow>
          (let presentMode = mode_loop (presentModes env) VK_PRESENT_MODE_FIFO_KHR;
               extent = selectExtent (capabilities env) w h;
               imageCount = selectImageCount (capabilities env);
               createInfo =
                 \<lparr> ci_surface = surface dp,
                   ci_minImageCount = imageCount,
                   ci_imageFormat = format selectedFormat,
                   ci_imageColorSpace = colorSpace selectedFormat,
                   ci_imageExtent = extent,
                   ci_preTransform = currentTransform (capabilities env),
                   ci_presentMode = presentMode,
                   ci_oldSwapchain = VK_NULL_HANDLE \<rparr>
           in if create_result env \<noteq> VK_SUCCESS
              then Inl (Runtime_error ''Failed to create swapchain'')
              else Inr (dp\<lparr> swapchain_format := format selectedFormat,
                           swapchain_extent := extent,
                           swapchain := created_swapchain env,
                           swapchain_images := created_images env \<rparr>,
                        createInfo)))"

subsection \<open>presentFrame\<close>

datatype VkImageLayout =
    VK_IMAGE_LAYOUT_UNDEFINED
  | VK_IMAGE_LAYOUT_GENERAL
  | VK_IMAGE_LAYOUT_TRANSFER_DST_OPTIMAL
  | VK_IMAGE_LAYOUT_PRESENT_SRC_KHR

text \<open>
  The calls that \<open>presentFrame\<close> makes, with the arguments that matter here:
  \<^item> \<open>WaitForFences device fence waitAll timeout result\<close>, where \<open>result\<close> is what the
    call returned, and \<open>ResetFences device fence\<close>;
  \<^item> \<open>AcquireNextImageKHR device swapchain timeout semaphore fence\<close>;
  \<^item> \<open>CmdPipelineBarrier buffer oldLayout newLayout image\<close>;
  \<^item> \<open>CmdCopyImage buffer src dst extent\<close>;
  \<^item> \<open>QueueSubmit queue waitSemaphore buffer signalSemaphore fence\<close>;
  \<^item> \<open>QueuePresentKHR queue waitSemaphore swapchain imageIndex\<close>.
\<close>

datatype present_call =
    PollEvents
  | WaitForFences handle handle bool u64 VkResult
  | ResetFences handle handle
  | AcquireNextImageKHR handle handle u64 handle handle
  | BeginCommandBuffer handle
  | CmdPipelineBarrier handle VkImageLayout VkImageLayout handle
  | CmdCopyImage handle handle handle VkExtent2D
  | EndCommandBuffer handle
  | QueueSubmit handle handle handle handle handle
  | QueuePresentKHR handle handle handle u32

text \<open>
  What the outside answers during one call of \<open>presentFrame\<close>: whether GLFW reports a
  close request for the window, the result of \<open>vkWaitForFences\<close>, the result of
  \<open>vkAcquireNextImageKHR\<close> and the value that \<open>imageIndex\<close> holds after it, and the
  result of \<open>vkQueueSubmit\<close>. The code drops the results of the fence wait, of the
  fence reset, of the acquisition, of the recording calls and of the present call.
  The results of the wait and of the acquisition are kept here all the same, so that
  what follows a failed wait and a timed-out acquisition can be stated: a wait
  returns \<open>VK_SUCCESS\<close> when the fence is signaled, and can return
  \<open>VK_ERROR_DEVICE_LOST\<close> with the fence unsignaled.
\<close>

record frame_env =
  close_requested :: bool
  wait_result :: VkResult
  acquire_result :: VkResult
  acquired_index :: u32
  submit_result :: VkResult

definition shouldClose :: "frame_env \<Rightarrow> DisplayPipeline \<Rightarrow> bool" where
  "shouldClose env dp \<longleftrightarrow> window dp \<noteq> 0 \<and> close_requested env"

text \<open>
  \<open>presentFrame\<close> returns the calls it made, in order, and its outcome: the returned
  \<open>bool\<close>, the exception thrown, or the undefined behaviour of indexing
  \<open>command_buffers_\<close> or \<open>swapchain_images_\<close> past the end. No member is written.
\<close>

definition presentFrame ::
  "frame_env \<Rightarrow> DisplayPipeline \<Rightarrow> handle \<Rightarrow> present_call list \<times> (error + bool)" where
  "presentFrame env dp compute_output =
     (if shouldClose env dp then ([], Inr False)
      else
        let device = vc_device (dp_vk_ctx dp);
            queue = vc_present_queue (dp_vk_ctx dp);
            fence = in_flight_fence dp;
            acquire =
              [PollEvents,
               WaitForFences device fence True UINT64_MAX (wait_result env),
               ResetFences device fence,
               AcquireNextImageKHR device (swapchain dp) UINT64_MAX
                 (image_available_semaphore dp) VK_NULL_HANDLE];
            imageIndex = unat (acquired_index env)
        in if length (command_buffers dp) \<le> imageIndex
           then (acquire, Inl Out_of_bounds_read)
           else
             let buffer = command_buffers dp ! imageIndex
             in if length (swapchain_images dp) \<le> imageIndex
                then (acquire @ [BeginCommandBuffer buffer], Inl Out_of_bounds_read)
                else
                  let image = swapchain_images dp ! imageIndex;
                      record_and_submit =
                        [BeginCommandBuffer buffer,
                         CmdPipelineBarrier buffer VK_IMAGE_LAYOUT_UNDEFINED
                           VK_IMAGE_LAYOUT_TRANSFER_DST_OPTIMAL image,
                         CmdCopyImage buffer compute_output image (swapchain_extent dp),
                         CmdPipelineBarrier buffer VK_IMAGE_LAYOUT_TRANSFER_DST_OPTIMAL
                           VK_IMAGE_LAYOUT_PRESENT_SRC_KHR image,
                         EndCommandBuffer buffer,
                         QueueSubmit queue (image_available_semaphore dp) buffer
                           (render_finished_semaphore dp) fence]
                  in if submit_result env \<noteq> VK_SUCCESS
                     then (acquire @ record_and_submit,
                           Inl (Runtime_error ''Failed to submit queue''))
                     else (acquire @ record_and_submit @
                             [QueuePresentKHR queue (render_finished_semaphore dp)
                                (swapchain dp) (acquired_index env)],
                           Inr True))"

text \<open>
  The presentation path over several frames: one call of \<open>presentFrame\<close> per entry,
  each with its own answers and its own compute output image; the calls of all frames
  in order. A caller that stops after an outcome runs a prefix of the list.
\<close>

definition presentFrames ::
  "(frame_env \<times> handle) list \<Rightarrow> DisplayPipeline \<Rightarrow> present_call list" where
  "presentFrames frames dp =
     concat (map (\<lambda>(env, compute_output). fst (presentFrame env dp compute_output)) frames)"

text \<open>
  The single-frame-in-flight rule as a monitor over the calls, for the fence \<open>f\<close>.
  \<open>observed\<close> says which results of a wait count as having observed the fence
  signaled.
  \<open>Outstanding\<close>: the fence has not been observed signaled since the last acquisition.
  \<open>Signaled\<close>: a wait for it, with wait-all and without timeout, has returned with a
  result that counts. \<open>Reset\<close>: it has been reset after that wait. An acquisition is
  allowed in \<open>Reset\<close> only, and leads back to \<open>Outstanding\<close>, as does a submission
  that is to signal the fence. The monitor answers \<open>None\<close> when an acquisition breaks
  the rule.
\<close>

datatype fence_phase = Outstanding | Signaled | Reset

fun fence_step ::
  "(VkResult \<Rightarrow> bool) \<Rightarrow> handle \<Rightarrow> fence_phase \<Rightarrow> present_call \<Rightarrow> fence_phase option" where
  "fence_step observed f ph (WaitForFences d f' waitAll timeout result) =
     Some (if f' = f \<and> waitAll \<and> timeout = UINT64_MAX \<and> observed result
           then Signaled else ph)"
| "fence_step observed f ph (ResetFences d f') =
     Some (if f' = f then (if ph = Signaled then Reset else Outstanding) else ph)"
| "fence_step observed f ph (AcquireNextImageKHR d s timeout sem fe) =
     (if ph = Reset then Some Outstanding else None)"
| "fence_step observed f ph (QueueSubmit q wsem buffer ssem fe) =
     Some (if fe = f then Outstanding else ph)"
| "fence_step observed f ph c = Some ph"

fun single_frame_in_flight ::
  "(VkResult \<Rightarrow> bool) \<Rightarrow> handle \<Rightarrow> fence_phase \<Rightarrow> present_call list \<Rightarrow>
     fence_phase option" where
  "single_frame_in_flight observed f ph [] = Some ph"
| "single_frame_in_flight observed f ph (c # cs) =
     (case fence_step observed f ph c of
        None \<Rightarrow> None
      | Some ph' \<Rightarrow> single_frame_in_flight observed f ph' cs)"

text \<open>
  The fence is observed signaled by a wait that returns \<open>VK_SUCCESS\<close>. The weaker
  reading counts every wait that has returned, whatever its result.
\<close>

definition wait_succeeded :: "VkResult \<Rightarrow> bool" where
  "wait_succeeded result \<longleftrightarrow> result = VK_SUCCESS"

definition wait_returned :: "VkResult \<Rightarrow> bool" where
  "wait_returned result \<longleftrightarrow> True"

text \<open>The timeouts of the acquisitions among some calls.\<close>

fun acquire_timeouts :: "present_call list \<Rightarrow> u64 list" where
  "acquire_timeouts [] = []"
| "acquire_timeouts (AcquireNextImageKHR d s timeout sem fe # cs) = timeout # acquire_timeouts cs"
| "acquire_timeouts (c # cs) = acquire_timeouts cs"

section \<open>Example objects\<close>

text \<open>A context after a complete \<open>init\<close>: every handle is set.\<close>

definition example_context :: VulkanContext where
  "example_context =
     \<lparr> vc_instance = 1, vc_physical_device = 2, vc_device = 3, vc_compute_queue = 4,
       vc_present_queue = 4, vc_compute_queue_family = 0, vc_present_queue_family = 0,
       vc_command_pool = 5, vc_debug_messenger = 6 \<rparr>"

text \<open>
  Three physical devices: an integrated GPU and a discrete GPU that both have a compute
  queue family and the swapchain extension, and a discrete GPU without the extension.
\<close>

definition integrated_gpu :: physical_device where
  "integrated_gpu =
     \<lparr> pd_handle = 10, deviceType = VK_PHYSICAL_DEVICE_TYPE_INTEGRATED_GPU,
       deviceName = ''integrated'', queueFlags = [1, 7],
       extensionNames = [''VK_KHR_maintenance1'', ''VK_KHR_swapchain''] \<rparr>"

definition discrete_gpu :: physical_device where
  "discrete_gpu =
     \<lparr> pd_handle = 11, deviceType = VK_PHYSICAL_DEVICE_TYPE_DISCRETE_GPU,
       deviceName = ''discrete'', queueFlags = [7, 2],
       extensionNames = [''VK_KHR_swapchain''] \<rparr>"

definition headless_gpu :: physical_device where
  "headless_gpu =
     \<lparr> pd_handle = 12, deviceType = VK_PHYSICAL_DEVICE_TYPE_DISCRETE_GPU,
       deviceName = ''headless'', queueFlags = [2],
       extensionNames = [''VK_KHR_maintenance1''] \<rparr>"

text \<open>A display pipeline after a complete \<open>init\<close>, with a chain of three images.\<close>

definition example_display :: DisplayPipeline where
  "example_display =
     \<lparr> dp_vk_ctx = example_context, window = 20, surface = 21, swapchain = 22,
       swapchain_images = [30, 31, 32], swapchain_image_views = [40, 41, 42],
       swapchain_format = 37,
       swapchain_extent = \<lparr> extent_width = 1920, extent_height = 1080 \<rparr>,
       render_pass = 23, framebuffers = [50, 51, 52], dp_pipeline_layout = 24,
       graphics_pipeline = 0, dp_command_pool = 25, command_buffers = [60, 61, 62],
       image_available_semaphore = 26, render_finished_semaphore = 27,
       in_flight_fence = 28, current_frame = 0 \<rparr>"

text \<open>
  The answers of one frame: no close request, the fence wait succeeds, the acquisition
  succeeds with image 1, the submission succeeds. The variants: a close request; an
  acquisition that reports a timeout; a fence wait that reports the loss of the device.
\<close>

definition frame_ok :: frame_env where
  "frame_ok =
     \<lparr> close_requested = False, wait_result = VK_SUCCESS, acquire_result = VK_SUCCESS,
       acquired_index = 1, submit_result = VK_SUCCESS \<rparr>"


definition frame_closed :: frame_env where
  "frame_closed = frame_ok\<lparr>close_requested := True\<rparr>"

definition frame_timeout :: frame_env where
  "frame_timeout = frame_ok\<lparr>acquire_result := VK_TIMEOUT\<rparr>"

text \<open>
  A compute pipeline after a complete \<open>init\<close>, and a device with two images: image 70
  is white, every other image is black.
\<close>

definition example_pipeline :: ComputePipeline where
  "example_pipeline =
     \<lparr> cp_vk_ctx = example_context, cp_width = 1920, cp_height = 1080,
       compute_shader = 80, cp_pipeline_layout = 81, compute_pipeline = 82,
       descriptor_set_layout = 83, descriptor_pool = 84, descriptor_sets = (85, 86),
       compute_command_buffer = 87, compute_fence = 88 \<rparr>"

definition example_gpu :: gpu where
  "example_gpu =
     \<lparr> image_memory = (\<lambda>image xy. if image = 70 then 0xFFFFFFFF else 0),
       submitted = [] \<rparr>"

text \<open>
  Surface answers: a surface whose current extent is the undefined sentinel, one whose
  current extent is defined, and one that reports no format at all.
\<close>

definition surface_undefined :: surface_env where
  "surface_undefined =
     \<lparr> capabilities =
         \<lparr> minImageCount = 2, maxImageCount = 0,
           currentExtent = \<lparr> extent_width = 0xFFFFFFFF, extent_height = 0xFFFFFFFF \<rparr>,
           currentTransform = 1 \<rparr>,
       formats = [\<lparr> format = 44, colorSpace = 0 \<rparr>, \<lparr> format = 37, colorSpace = 0 \<rparr>],
       presentModes = [2, 1], create_result = VK_SUCCESS, created_swapchain = 22,
       created_images = [30, 31, 32] \<rparr>"

definition surface_defined :: surface_env where
  "surface_defined =
     surface_undefined\<lparr>capabilities :=
       \<lparr> minImageCount = 2, maxImageCount = 0,
         currentExtent = \<lparr> extent_width = 800, extent_height = 600 \<rparr>,
         currentTransform = 1 \<rparr>\<rparr>"

definition surface_no_format :: surface_env where
  "surface_no_format = surface_undefined\<lparr>formats := []\<rparr>"

text \<open>The \<open>Frame frame;\<close> of the main loop before the call: no data yet.\<close>

definition empty_frame :: Frame where
  "empty_frame = \<lparr> width = 0, height = 0, stride = 0, data = [] \<rparr>"

section \<open>Properties\<close>

subsection \<open>VulkanContext::cleanup\<close>

text \<open>
  What \<open>cleanup\<close> does on any context: it writes no member, it destroys non-null
  handles only, and on a complete context it destroys the command pool, the device,
  the debug messenger and the instance, in this order.
\<close>

lemma cleanup_keeps_members: "fst (cleanup destroyFunc ctx) = ctx"
  by (simp add: cleanup_def)

lemma cleanup_skips_null:
  "c \<in> set (snd (cleanup destroyFunc ctx)) \<Longrightarrow> destroyed c \<noteq> VK_NULL_HANDLE"
  by (auto simp: cleanup_def split: if_splits)

lemma cleanup_new: "snd (cleanup destroyFunc VulkanContext_new) = []"
  by (simp add: cleanup_def VulkanContext_new_def)

lemma cleanup_full_order:
  assumes "vc_device ctx \<noteq> VK_NULL_HANDLE" "vc_command_pool ctx \<noteq> VK_NULL_HANDLE"
    "vc_instance ctx \<noteq> VK_NULL_HANDLE" "vc_debug_messenger ctx \<noteq> VK_NULL_HANDLE"
  shows "snd (cleanup True ctx) =
    [DestroyCommandPool (vc_device ctx) (vc_command_pool ctx), DestroyDevice (vc_device ctx),
     DestroyDebugUtilsMessenger (vc_instance ctx) (vc_debug_messenger ctx),
     DestroyInstance (vc_instance ctx)]"
  using assms by (simp add: cleanup_def)

text \<open>
  Since no member is reset to \<open>VK_NULL_HANDLE\<close>, a second call finds the same handles
  and issues the same destroy calls once more.
\<close>

lemma cleanup_repeats:
  "snd (cleanup_twice destroyFunc ctx) =
     snd (cleanup destroyFunc ctx) @ snd (cleanup destroyFunc ctx)"
  by (simp add: cleanup_twice_def cleanup_def)

text \<open>
  C7. The specification calls \<open>cleanup\<close> idempotent: a second call is to destroy nothing
  that is destroyed already. On the complete context \<open>example_context\<close> the two calls
  issue the four destroy calls in the stated order, and then the same four again: the
  command pool, the device, the debug messenger and the instance are each destroyed
  twice.
\<close>

theorem cleanup_twice_destroys_twice:
  "cleanup_twice True example_context =
     (example_context,
      [DestroyCommandPool 3 5, DestroyDevice 3, DestroyDebugUtilsMessenger 1 6, DestroyInstance 1,
       DestroyCommandPool 3 5, DestroyDevice 3, DestroyDebugUtilsMessenger 1 6, DestroyInstance 1])"
  by (simp add: cleanup_twice_def cleanup_def example_context_def VK_NULL_HANDLE_def)

subsection \<open>VulkanContext::selectPhysicalDevice\<close>

text \<open>Each loop finds the first element of the list that passes its tests.\<close>

lemma prefer_discrete_filter:
  "prefer_discrete devices =
     (case filter (\<lambda>d. deviceType d = VK_PHYSICAL_DEVICE_TYPE_DISCRETE_GPU)
             (filter isDeviceSuitable devices) of
        [] \<Rightarrow> None | d # _ \<Rightarrow> Some d)"
  by (induction devices) auto

lemma fallback_suitable_filter:
  "fallback_suitable devices =
     (case filter isDeviceSuitable devices of [] \<Rightarrow> None | d # _ \<Rightarrow> Some d)"
  by (induction devices) auto

lemma suitable_examples:
  "isDeviceSuitable integrated_gpu" "isDeviceSuitable discrete_gpu"
  "\<not> isDeviceSuitable headless_gpu"
  by (simp_all add: isDeviceSuitable_def integrated_gpu_def discrete_gpu_def headless_gpu_def
        VK_QUEUE_COMPUTE_BIT_def VK_KHR_SWAPCHAIN_EXTENSION_NAME_def)

lemma type_examples:
  "deviceType integrated_gpu \<noteq> VK_PHYSICAL_DEVICE_TYPE_DISCRETE_GPU"
  "deviceType discrete_gpu = VK_PHYSICAL_DEVICE_TYPE_DISCRETE_GPU"
  "pd_handle integrated_gpu = 10" "pd_handle discrete_gpu = 11"
  by (simp_all add: integrated_gpu_def discrete_gpu_def
        VK_PHYSICAL_DEVICE_TYPE_DISCRETE_GPU_def VK_PHYSICAL_DEVICE_TYPE_INTEGRATED_GPU_def)

text \<open>
  C4. Among the enumerated devices, in the order of enumeration: if some suitable device
  is a discrete GPU, the first suitable discrete GPU is selected; otherwise, if some
  device is suitable, the first suitable device is selected; if no device is suitable,
  \<open>selectPhysicalDevice\<close> throws (the specification's \<open>InitializationError\<close> is a
  \<open>std::runtime_error\<close> in the code).
\<close>

theorem selectPhysicalDevice_choice:
  "(filter (\<lambda>d. deviceType d = VK_PHYSICAL_DEVICE_TYPE_DISCRETE_GPU)
       (filter isDeviceSuitable devices) \<noteq> [] \<longrightarrow>
      selectPhysicalDevice devices ctx =
        Inr (ctx\<lparr>vc_physical_device :=
               pd_handle (hd (filter (\<lambda>d. deviceType d = VK_PHYSICAL_DEVICE_TYPE_DISCRETE_GPU)
                                (filter isDeviceSuitable devices)))\<rparr>))
   \<and> (filter (\<lambda>d. deviceType d = VK_PHYSICAL_DEVICE_TYPE_DISCRETE_GPU)
         (filter isDeviceSuitable devices) = [] \<and> filter isDeviceSuitable devices \<noteq> [] \<longrightarrow>
      selectPhysicalDevice devices ctx =
        Inr (ctx\<lparr>vc_physical_device := pd_handle (hd (filter isDeviceSuitable devices))\<rparr>))
   \<and> (filter isDeviceSuitable devices = [] \<longrightarrow>
      (\<exists>msg. selectPhysicalDevice devices ctx = Inl (Runtime_error msg)))"
  by (auto simp: selectPhysicalDevice_def prefer_discrete_filter fallback_suitable_filter
           split: list.splits)

theorem selectPhysicalDevice_choice_witness:
  "(filter (\<lambda>d. deviceType d = VK_PHYSICAL_DEVICE_TYPE_DISCRETE_GPU)
      (filter isDeviceSuitable [headless_gpu, integrated_gpu, discrete_gpu]) \<noteq> []
    \<and> selectPhysicalDevice [headless_gpu, integrated_gpu, discrete_gpu] VulkanContext_new =
        Inr (VulkanContext_new\<lparr>vc_physical_device := 11\<rparr>))
   \<and> (filter (\<lambda>d. deviceType d = VK_PHYSICAL_DEVICE_TYPE_DISCRETE_GPU)
        (filter isDeviceSuitable [headless_gpu, integrated_gpu]) = []
      \<and> filter isDeviceSuitable [headless_gpu, integrated_gpu] \<noteq> []
      \<and> selectPhysicalDevice [headless_gpu, integrated_gpu] VulkanContext_new =
          Inr (VulkanContext_new\<lparr>vc_physical_device := 10\<rparr>))
   \<and> (filter isDeviceSuitable [headless_gpu] = []
      \<and> selectPhysicalDevice [headless_gpu] VulkanContext_new =
          Inl (Runtime_error ''Failed to find suitable GPU''))"
  using selectPhysicalDevice_choice [of "[headless_gpu, integrated_gpu, discrete_gpu]" VulkanContext_new]
    selectPhysicalDevice_choice [of "[headless_gpu, integrated_gpu]" VulkanContext_new]
    selectPhysicalDevice_choice [of "[headless_gpu]" VulkanContext_new]
  by (simp add: suitable_examples type_examples selectPhysicalDevice_def)

subsection \<open>ComputePipeline::processFrame\<close>

text \<open>
  C1. The tiling rule: after \<open>processFrame input output b\<close> the output texel at
  \<open>(x, y)\<close> is the input texel at \<open>(x div b * b, y div b * b)\<close>. On an initialised
  pipeline, with the white image 70 as input, the black image 71 as output and block
  size 1, the call returns with the device unchanged: the output texel at \<open>(0, 0)\<close> is
  still black, where the rule asks for the white input texel.
\<close>

theorem processFrame_leaves_output:
  "processFrame example_pipeline 70 71 1 example_gpu = Inr (example_pipeline, example_gpu)
   \<and> image_memory example_gpu 71 (0, 0) = 0
   \<and> tile_sample (image_memory example_gpu 70) 1 (0, 0) = 0xFFFFFFFF"
  by (simp add: processFrame_def example_gpu_def tile_sample_def)

text \<open>
  C3, as the specification has it: \<open>processFrame\<close> on a pipeline whose \<open>init\<close> has not
  run fails with an error. On a freshly constructed pipeline the call returns normally.
\<close>

theorem processFrame_before_init_counterexample:
  "processFrame (ComputePipeline_new VulkanContext_new 0 0 (0, 0)) 70 71 16 example_gpu =
     Inr (ComputePipeline_new VulkanContext_new 0 0 (0, 0), example_gpu)"
  by (simp add: processFrame_def)

text \<open>
  C3, amended: \<open>processFrame\<close> does not check that \<open>init\<close> has run. In every state of
  the pipeline, and so on every freshly constructed pipeline and on every pipeline
  whose \<open>init\<close> has stopped half way, for every input image, output image, block size
  and device state, it raises no error, returns normally and performs no work: the
  pipeline and the device are as before.
\<close>

theorem processFrame_before_init:
  "processFrame cp input_image output_image block_size g = Inr (cp, g)
   \<and> processFrame (ComputePipeline_new vk_ctx w h sets) input_image output_image block_size g =
       Inr (ComputePipeline_new vk_ctx w h sets, g)"
  by (simp add: processFrame_def)

subsection \<open>DisplayPipeline::createSwapchain\<close>

text \<open>The three outcomes of \<open>createSwapchain\<close>, with the negotiated values spelled out.\<close>

lemma createSwapchain_cases:
  "createSwapchain env w h dp =
     (if formats env = [] then Inl Out_of_bounds_read
      else if create_result env \<noteq> VK_SUCCESS then Inl (Runtime_error ''Failed to create swapchain'')
      else Inr (dp\<lparr> swapchain_format := format (format_loop (formats env) (formats env ! 0)),
                   swapchain_extent := selectExtent (capabilities env) w h,
                   swapchain := created_swapchain env,
                   swapchain_images := created_images env \<rparr>,
                \<lparr> ci_surface = surface dp,
                  ci_minImageCount = selectImageCount (capabilities env),
                  ci_imageFormat = format (format_loop (formats env) (formats env ! 0)),
                  ci_imageColorSpace = colorSpace (format_loop (formats env) (formats env ! 0)),
                  ci_imageExtent = selectExtent (capabilities env) w h,
                  ci_preTransform = currentTransform (capabilities env),
                  ci_presentMode = mode_loop (presentModes env) VK_PRESENT_MODE_FIFO_KHR,
                  ci_oldSwapchain = VK_NULL_HANDLE \<rparr>))"
  by (cases "formats env") (simp_all add: createSwapchain_def selectFormat_def Let_def)

lemma createSwapchain_undefined:
  "createSwapchain surface_undefined 1920 1080 example_display =
     Inr (example_display,
          \<lparr> ci_surface = 21, ci_minImageCount = 3, ci_imageFormat = 37, ci_imageColorSpace = 0,
            ci_imageExtent = \<lparr> extent_width = 1920, extent_height = 1080 \<rparr>,
            ci_preTransform = 1, ci_presentMode = 1, ci_oldSwapchain = 0 \<rparr>)"
  by (simp add: createSwapchain_cases surface_undefined_def example_display_def
        selectExtent_def selectImageCount_def UINT32_MAX_def
        VK_FORMAT_R8G8B8A8_UNORM_def VK_COLOR_SPACE_SRGB_NONLINEAR_KHR_def
        VK_PRESENT_MODE_MAILBOX_KHR_def VK_PRESENT_MODE_FIFO_KHR_def VK_NULL_HANDLE_def)

lemma createSwapchain_defined:
  "createSwapchain surface_defined 1920 1080 example_display =
     Inr (example_display\<lparr>swapchain_extent := \<lparr> extent_width = 800, extent_height = 600 \<rparr>\<rparr>,
          \<lparr> ci_surface = 21, ci_minImageCount = 3, ci_imageFormat = 37, ci_imageColorSpace = 0,
            ci_imageExtent = \<lparr> extent_width = 800, extent_height = 600 \<rparr>,
            ci_preTransform = 1, ci_presentMode = 1, ci_oldSwapchain = 0 \<rparr>)"
  by (simp add: createSwapchain_cases surface_defined_def surface_undefined_def example_display_def
        selectExtent_def selectImageCount_def UINT32_MAX_def
        VK_FORMAT_R8G8B8A8_UNORM_def VK_COLOR_SPACE_SRGB_NONLINEAR_KHR_def
        VK_PRESENT_MODE_MAILBOX_KHR_def VK_PRESENT_MODE_FIFO_KHR_def VK_NULL_HANDLE_def)

text \<open>
  C5. Whenever \<open>createSwapchain\<close> builds a chain: if the width of the reported current
  extent is \<open>UINT32_MAX\<close>, the chain's extent is the width and height of the caller;
  otherwise it is the reported current extent, whatever the caller asked for. The
  extent passed to \<open>vkCreateSwapchainKHR\<close> is the one stored in the object.
\<close>

theorem createSwapchain_extent:
  assumes "createSwapchain env w h dp = Inr (dp', createInfo)"
  shows "(extent_width (currentExtent (capabilities env)) = UINT32_MAX \<longrightarrow>
            extent_width (swapchain_extent dp') = w \<and> extent_height (swapchain_extent dp') = h)
       \<and> (extent_width (currentExtent (capabilities env)) \<noteq> UINT32_MAX \<longrightarrow>
            swapchain_extent dp' = currentExtent (capabilities env))
       \<and> ci_imageExtent createInfo = swapchain_extent dp'"
  using assms by (auto simp: createSwapchain_cases selectExtent_def split: if_splits)

theorem createSwapchain_extent_witness:
  "(createSwapchain surface_undefined 1920 1080 example_display =
      Inr (example_display,
          \<lparr> ci_surface = 21, ci_minImageCount = 3, ci_imageFormat = 37, ci_imageColorSpace = 0,
            ci_imageExtent = \<lparr> extent_width = 1920, extent_height = 1080 \<rparr>,
            ci_preTransform = 1, ci_presentMode = 1, ci_oldSwapchain = 0 \<rparr>)
    \<and> extent_width (currentExtent (capabilities surface_undefined)) = UINT32_MAX
    \<and> extent_width (swapchain_extent example_display) = 1920
    \<and> extent_height (swapchain_extent example_display) = 1080)
   \<and> (createSwapchain surface_defined 1920 1080 example_display =
      Inr (example_display\<lparr>swapchain_extent := \<lparr> extent_width = 800, extent_height = 600 \<rparr>\<rparr>,
          \<lparr> ci_surface = 21, ci_minImageCount = 3, ci_imageFormat = 37, ci_imageColorSpace = 0,
            ci_imageExtent = \<lparr> extent_width = 800, extent_height = 600 \<rparr>,
            ci_preTransform = 1, ci_presentMode = 1, ci_oldSwapchain = 0 \<rparr>)
    \<and> extent_width (currentExtent (capabilities surface_defined)) \<noteq> UINT32_MAX
    \<and> swapchain_extent
          (example_display\<lparr>swapchain_extent := \<lparr> extent_width = 800, extent_height = 600 \<rparr>\<rparr>) =
        currentExtent (capabilities surface_defined))"
  using createSwapchain_extent [OF createSwapchain_undefined]
    createSwapchain_extent [OF createSwapchain_defined]
    createSwapchain_undefined createSwapchain_defined
  by (simp add: surface_defined_def surface_undefined_def UINT32_MAX_def)

text \<open>
  C10. The format selection reads element 0 of the reported formats before the search
  and without a test. When the device reports no format, this is a read past the end
  of the vector, not an exception, and it is the outcome of \<open>createSwapchain\<close> whatever
  the other answers are. When the device reports at least one format, the read is in
  range: the selection is the loop's result started from element 0, and
  \<open>createSwapchain\<close> has no out-of-bounds read.
\<close>

theorem createSwapchain_reads_first_format:
  "(formats env = [] \<longrightarrow>
      selectFormat (formats env) = Inl Out_of_bounds_read
      \<and> createSwapchain env w h dp = Inl Out_of_bounds_read
      \<and> (\<forall>msg. createSwapchain env w h dp \<noteq> Inl (Runtime_error msg)))
   \<and> (formats env \<noteq> [] \<longrightarrow>
      selectFormat (formats env) = Inr (format_loop (formats env) (formats env ! 0))
      \<and> createSwapchain env w h dp \<noteq> Inl Out_of_bounds_read)"
  by (cases "formats env") (simp_all add: createSwapchain_cases selectFormat_def)

theorem createSwapchain_reads_first_format_witness:
  "(formats surface_no_format = []
    \<and> selectFormat (formats surface_no_format) = Inl Out_of_bounds_read
    \<and> createSwapchain surface_no_format 1920 1080 example_display = Inl Out_of_bounds_read)
   \<and> (formats surface_undefined \<noteq> []
    \<and> selectFormat (formats surface_undefined) = Inr \<lparr> format = 37, colorSpace = 0 \<rparr>
    \<and> createSwapchain surface_undefined 1920 1080 example_display \<noteq> Inl Out_of_bounds_read)"
  using createSwapchain_reads_first_format [of surface_no_format 1920 1080 example_display]
    createSwapchain_reads_first_format [of surface_undefined 1920 1080 example_display]
  by (simp add: surface_no_format_def surface_undefined_def
        VK_FORMAT_R8G8B8A8_UNORM_def VK_COLOR_SPACE_SRGB_NONLINEAR_KHR_def)

subsection \<open>DisplayPipeline::presentFrame\<close>

lemma presentFrame_closed:
  "shouldClose env dp \<Longrightarrow> presentFrame env dp compute_output = ([], Inr False)"
  by (simp add: presentFrame_def)

lemma presentFrame_outcomes:
  "\<not> shouldClose env dp \<Longrightarrow>
     snd (presentFrame env dp compute_output) = Inr True
     \<or> snd (presentFrame env dp compute_output) = Inl Out_of_bounds_read
     \<or> snd (presentFrame env dp compute_output) = Inl (Runtime_error ''Failed to submit queue'')"
  by (simp add: presentFrame_def Let_def)

text \<open>One successful frame on the example pipeline, call by call.\<close>

lemma presentFrame_ok:
  "presentFrame frame_ok example_display 71 =
     ([PollEvents, WaitForFences 3 28 True UINT64_MAX VK_SUCCESS, ResetFences 3 28,
       AcquireNextImageKHR 3 22 UINT64_MAX 26 0,
       BeginCommandBuffer 61,
       CmdPipelineBarrier 61 VK_IMAGE_LAYOUT_UNDEFINED VK_IMAGE_LAYOUT_TRANSFER_DST_OPTIMAL 31,
       CmdCopyImage 61 71 31 \<lparr> extent_width = 1920, extent_height = 1080 \<rparr>,
       CmdPipelineBarrier 61 VK_IMAGE_LAYOUT_TRANSFER_DST_OPTIMAL VK_IMAGE_LAYOUT_PRESENT_SRC_KHR 31,
       EndCommandBuffer 61,
       QueueSubmit 4 26 61 27 28,
       QueuePresentKHR 4 27 22 1],
      Inr True)"
  by (simp add: presentFrame_def shouldClose_def frame_ok_def example_display_def
        example_context_def VK_NULL_HANDLE_def Let_def)

text \<open>
  A frame that is not closed starts with the event poll, the wait for the in-flight
  fence, its reset and the acquisition, in this order, and acquires nothing after.
\<close>

lemma presentFrame_first_calls:
  assumes "\<not> shouldClose env dp"
  shows "take 4 (fst (presentFrame env dp compute_output)) =
           [PollEvents,
            WaitForFences (vc_device (dp_vk_ctx dp)) (in_flight_fence dp) True UINT64_MAX
              (wait_result env),
            ResetFences (vc_device (dp_vk_ctx dp)) (in_flight_fence dp),
            AcquireNextImageKHR (vc_device (dp_vk_ctx dp)) (swapchain dp) UINT64_MAX
              (image_available_semaphore dp) VK_NULL_HANDLE]"
    and "acquire_timeouts (drop 4 (fst (presentFrame env dp compute_output))) = []"
  using assms by (simp_all add: presentFrame_def Let_def)

text \<open>
  C6. When the window has received a close request, \<open>presentFrame\<close> returns \<open>false\<close>
  and makes no call at all: no fence wait, no acquisition, no recording, no submission,
  no present. Otherwise, whenever it returns (rather than throws), it returns \<open>true\<close>.
\<close>

theorem presentFrame_close_request:
  "(window dp \<noteq> 0 \<and> close_requested env \<longrightarrow>
      presentFrame env dp compute_output = ([], Inr False))
   \<and> (\<not> (window dp \<noteq> 0 \<and> close_requested env) \<longrightarrow>
      (\<forall>b. snd (presentFrame env dp compute_output) = Inr b \<longrightarrow> b = True))"
  using presentFrame_closed [of env dp compute_output]
    presentFrame_outcomes [of env dp compute_output]
  by (auto simp: shouldClose_def)

theorem presentFrame_close_request_witness:
  "(window example_display \<noteq> 0 \<and> close_requested frame_closed
    \<and> presentFrame frame_closed example_display 71 = ([], Inr False))
   \<and> (\<not> (window example_display \<noteq> 0 \<and> close_requested frame_ok)
    \<and> snd (presentFrame frame_ok example_display 71) = Inr True)"
  using presentFrame_close_request [of example_display frame_closed 71]
    presentFrame_close_request [of example_display frame_ok 71]
    presentFrame_ok
  by (simp add: frame_closed_def frame_ok_def example_display_def)

text \<open>
  C2, as the specification has it: the wait for the next chain image is bounded, and
  \<open>presentFrame\<close> fails when the bound is exceeded. On the example pipeline, with an
  acquisition that reports \<open>VK_TIMEOUT\<close>, \<open>presentFrame\<close> returns \<open>true\<close>; and the
  timeout it passed to the acquisition is \<open>UINT64_MAX\<close>, which asks for a wait
  without bound.
\<close>

theorem presentFrame_timeout_counterexample:
  "acquire_result frame_timeout = VK_TIMEOUT
   \<and> snd (presentFrame frame_timeout example_display 71) = Inr True
   \<and> acquire_timeouts (fst (presentFrame frame_timeout example_display 71)) =
       [0xFFFFFFFFFFFFFFFF]"
  by (simp add: presentFrame_def shouldClose_def frame_timeout_def frame_ok_def
        example_display_def example_context_def UINT64_MAX_def Let_def)

text \<open>
  C2, amended: in \<open>presentFrame\<close> the wait for the next chain image index is not
  bounded (a frame that is not closed makes exactly one acquisition, with timeout
  \<open>UINT64_MAX\<close>), and the result of the acquisition has no influence on what
  \<open>presentFrame\<close> does: no result of it makes \<open>presentFrame\<close> fail. The only exception
  of \<open>presentFrame\<close> is the \<open>std::runtime_error\<close> of a failed submission.
\<close>

theorem presentFrame_unbounded_acquire:
  "acquire_timeouts (fst (presentFrame env dp compute_output)) =
     (if shouldClose env dp then [] else [UINT64_MAX])
   \<and> presentFrame (env\<lparr>acquire_result := r\<rparr>) dp compute_output =
       presentFrame env dp compute_output
   \<and> (snd (presentFrame env dp compute_output) = Inr False
      \<or> snd (presentFrame env dp compute_output) = Inr True
      \<or> snd (presentFrame env dp compute_output) = Inl Out_of_bounds_read
      \<or> snd (presentFrame env dp compute_output) = Inl (Runtime_error ''Failed to submit queue''))"
  by (simp add: presentFrame_def shouldClose_def Let_def)

subsection \<open>The presentation path over several frames\<close>




text \<open>
  One frame whose wait fails, and which is not closed, acquires all the same: the
  monitor refuses it.
\<close>

lemma presentFrame_wait_failed:
  "wait_result env \<noteq> VK_SUCCESS \<Longrightarrow> \<not> shouldClose env dp \<Longrightarrow>
     single_frame_in_flight wait_succeeded (in_flight_fence dp) Outstanding
       (fst (presentFrame env dp compute_output)) = None"
  by (simp add: presentFrame_def wait_succeeded_def Let_def)




text \<open>
  The monitor is not trivial: it refuses a second acquisition without a new wait and
  reset, an acquisition after a wait with a finite timeout, an acquisition after
  a wait without a reset, and, where only a successful wait counts, an acquisition
  after a wait that reported the loss of the device.
\<close>

lemma monitor_rejects:
  "single_frame_in_flight wait_returned 28 Outstanding
     [WaitForFences 3 28 True UINT64_MAX VK_SUCCESS, ResetFences 3 28,
      AcquireNextImageKHR 3 22 UINT64_MAX 26 0, AcquireNextImageKHR 3 22 UINT64_MAX 26 0] = None"
  "single_frame_in_flight wait_returned 28 Outstanding
     [WaitForFences 3 28 True 1000 VK_SUCCESS, ResetFences 3 28,
      AcquireNextImageKHR 3 22 UINT64_MAX 26 0] = None"
  "single_frame_in_flight wait_returned 28 Outstanding
     [WaitForFences 3 28 True UINT64_MAX VK_SUCCESS,
      AcquireNextImageKHR 3 22 UINT64_MAX 26 0] = None"
  "single_frame_in_flight wait_succeeded 28 Outstanding
     [WaitForFences 3 28 True UINT64_MAX VK_ERROR_DEVICE_LOST, ResetFences 3 28,
      AcquireNextImageKHR 3 22 UINT64_MAX 26 0] = None"
  by (simp_all add: UINT64_MAX_def wait_returned_def wait_succeeded_def)

lemma three_frames_acquire:
  "acquire_timeouts
     (presentFrames [(frame_ok, 71), (frame_ok, 71), (frame_ok, 71)] example_display) =
     [UINT64_MAX, UINT64_MAX, UINT64_MAX]"
  by (simp add: presentFrames_def presentFrame_ok)




subsection \<open>FrameGrabber::grabFrame\<close>

lemma length_gradient_pixel: "length (gradient_pixel w h x y) = 4"
  by (simp add: gradient_pixel_def Let_def)

lemma length_concat_uniform:
  "(\<And>xs. xs \<in> set xss \<Longrightarrow> length xs = k) \<Longrightarrow> length (concat xss) = length xss * k"
  by (induction xss) auto

lemma nth_concat_uniform:
  "(\<And>xs. xs \<in> set xss \<Longrightarrow> length xs = k) \<Longrightarrow> i < length xss \<Longrightarrow> j < k \<Longrightarrow>
     concat xss ! (i * k + j) = xss ! i ! j"
proof (induction xss arbitrary: i)
  case Nil
  then show ?case by simp
next
  case (Cons xs xss)
  have len: "length xs = k" using Cons.prems(1) by simp
  show ?case
  proof (cases i)
    case 0
    then show ?thesis using Cons.prems(3) len by (simp add: nth_append)
  next
    case (Suc i')
    have "concat xss ! (i' * k + j) = xss ! i' ! j"
      using Cons.IH [of i'] Cons.prems Suc by simp
    then show ?thesis using Suc len by (simp add: nth_append)
  qed
qed

lemma length_gradient_row: "length (gradient_row w h y) = unat w * 4"
  unfolding gradient_row_def
  by (subst length_concat_uniform [where k = 4]) (auto simp: length_gradient_pixel)

lemma length_gradient_rows: "length (gradient_rows w h) = unat h * unat w * 4"
  unfolding gradient_rows_def
  by (subst length_concat_uniform [where k = "unat w * 4"]) (auto simp: length_gradient_row)

text \<open>The four bytes of the pixel \<open>(x, y)\<close> lie at offset \<open>4 * (y * width + x)\<close>.\<close>

lemma gradient_rows_pixel:
  assumes "x < unat w" "y < unat h" "j < 4"
  shows "gradient_rows w h ! (4 * (y * unat w + x) + j) =
           gradient_pixel w h (of_nat x) (of_nat y) ! j"
proof -
  have row: "gradient_rows w h ! (y * (unat w * 4) + (x * 4 + j)) =
      gradient_row w h (of_nat y) ! (x * 4 + j)"
    unfolding gradient_rows_def
    using assms
    by (subst nth_concat_uniform [where k = "unat w * 4"]) (auto simp: length_gradient_row)
  have px: "gradient_row w h (of_nat y) ! (x * 4 + j) =
      gradient_pixel w h (of_nat x) (of_nat y) ! j"
    unfolding gradient_row_def
    using assms
    by (subst nth_concat_uniform [where k = 4]) (auto simp: length_gradient_pixel)
  have idx: "4 * (y * unat w + x) + j = y * (unat w * 4) + (x * 4 + j)"
    by (simp add: algebra_simps)
  show ?thesis unfolding idx using row px by (rule trans)
qed

text \<open>
  Where no \<open>uint32_t\<close> product or sum wraps, the bytes of a pixel are the quotients of
  the gradient, computed in the natural numbers.
\<close>

lemma gradient_pixel_values:
  assumes "x < unat w" "y < unat h" "(unat w + unat h) * 255 < 2 ^ 32"
  shows "map unat (gradient_pixel w h (of_nat x) (of_nat y)) =
     [(x * 255) div unat w, (y * 255) div unat h,
      ((x + y) * 255) div (unat w + unat h), 255]"
proof -
  have bx: "x * 255 < 2 ^ 32" and by': "y * 255 < 2 ^ 32" and bxy: "(x + y) * 255 < 2 ^ 32"
    using assms by auto
  have add: "unat (w + h) = unat w + unat h"
    using assms(3) by (simp add: unat_add_lem [THEN iffD1])
  have ux: "unat ((of_nat x :: u32) * 255) = x * 255"
    using bx by (simp add: unat_word_ariths unat_of_nat take_bit_nat_eq_self_iff)
  have uy: "unat ((of_nat y :: u32) * 255) = y * 255"
    using by' by (simp add: unat_word_ariths unat_of_nat take_bit_nat_eq_self_iff)
  have uxy: "unat (((of_nat x :: u32) + of_nat y) * 255) = (x + y) * 255"
    using bxy by (simp add: unat_word_ariths unat_of_nat take_bit_nat_eq_self_iff)
  have r: "unat (((of_nat x :: u32) * 255) div w) = (x * 255) div unat w"
    by (simp add: unat_div ux)
  have g: "unat (((of_nat y :: u32) * 255) div h) = (y * 255) div unat h"
    by (simp add: unat_div uy)
  have b: "unat ((((of_nat x :: u32) + of_nat y) * 255) div (w + h)) =
      ((x + y) * 255) div (unat w + unat h)"
    by (simp only: unat_div uxy add)
  have rb: "(x * 255) div unat w < 256"
    using assms(1) by (simp add: less_mult_imp_div_less)
  have gb: "(y * 255) div unat h < 256"
    using assms(2) by (simp add: less_mult_imp_div_less)
  have bb: "((x + y) * 255) div (unat w + unat h) < 256"
    using assms(1,2) by (simp add: less_mult_imp_div_less)
  show ?thesis
    using r g b rb gb bb
    by (simp add: gradient_pixel_def Let_def unsigned_ucast_eq take_bit_nat_eq_self_iff)
qed

text \<open>
  Where the pixel count fits into \<open>uint32_t\<close>, \<open>grabFrame\<close> returns \<open>true\<close>, sets the
  dimensions and the stride, and the data are exactly the bytes of the gradient.
\<close>

lemma grabFrame_in_range:
  assumes "unat w * unat h < 2 ^ 32" "unat w + unat h < 2 ^ 32"
  shows "grabFrame (FrameGrabber_new w h) out_frame =
     Inr (True,
          \<lparr> width = w, height = h, stride = w * 4, data = gradient_rows w h \<rparr>,
          \<lparr> fg_width = w, fg_height = h, fg_frame_count = 1 \<rparr>)"
proof -
  have mul: "unat (w * h) = unat w * unat h"
    using assms(1) by (simp add: unat_mult_lem [THEN iffD1])
  have add: "unat (w + h) = unat w + unat h"
    using assms(2) by (simp add: unat_add_lem [THEN iffD1])
  have nz: "\<not> (w \<noteq> 0 \<and> h \<noteq> 0 \<and> w + h = 0)"
  proof
    assume a: "w \<noteq> 0 \<and> h \<noteq> 0 \<and> w + h = 0"
    then have "unat w + unat h = 0" using add by simp
    then have "w = 0" by (simp add: unat_eq_0)
    with a show False by simp
  qed
  have len: "length (resize (unat (w * h) * 4) (data out_frame)) = unat h * unat w * 4"
    by (simp add: resize_def mul min_def)
  show ?thesis
    using nz len
    by (simp add: grabFrame_def FrameGrabber_new_def Let_def)
qed

lemma grabFrame_1920_1080:
  "grabFrame (FrameGrabber_new 1920 1080) out_frame =
     Inr (True,
          \<lparr> width = 1920, height = 1080, stride = 7680, data = gradient_rows 1920 1080 \<rparr>,
          \<lparr> fg_width = 1920, fg_height = 1080, fg_frame_count = 1 \<rparr>)"
  using grabFrame_in_range [of 1920 1080 out_frame] by simp

text \<open>
  With a width of 1 and a height of \<open>UINT32_MAX\<close> the sum \<open>width_ + height_\<close> wraps to
  zero, and the first pixel divides by it.
\<close>

lemma grabFrame_division_by_zero:
  "grabFrame (FrameGrabber_new 1 0xFFFFFFFF) empty_frame = Inl Division_by_zero"
  by (simp add: grabFrame_def FrameGrabber_new_def Let_def)

text \<open>
  C9. \<open>grabFrame\<close> is to return \<open>true\<close> on every call, with \<open>width * height * 4\<close> bytes
  of gradient. For a grabber of 65536 by 65536 pixels the \<open>uint32_t\<close> product
  \<open>width_ * height_\<close> wraps to 0: the buffer is resized to 0 bytes, and the loops store
  \<open>65536 * 65536 * 4\<close> bytes past its end. The call has undefined behaviour; it returns
  neither \<open>true\<close> nor a frame.
\<close>

theorem grabFrame_overflow:
  "grabFrame (FrameGrabber_new 65536 65536) empty_frame = Inl Out_of_bounds_write"
  by (simp add: grabFrame_def FrameGrabber_new_def empty_frame_def resize_def Let_def)

end
